theory Spec2Isabelle
  imports Main
begin

section \<open>JavaScript values\<close>

text \<open>
  The plugin is TypeScript whose inputs are typed \<open>any\<close>: requests, users and tenant
  references are arbitrary JavaScript values, and the code tells them apart with
  \<open>typeof\<close>, truthiness, \<open>?.\<close> and \<open>??\<close>. The model therefore works on one type of
  values.

  \<^item> A number is \<open>JNum n\<close> for an integer \<open>n\<close> that a double holds exactly (\<open>-0\<close> and
    \<open>0\<close> coincide), \<open>JNaN\<close>, or an infinity \<open>JInfinity negative\<close>. Fractions do not
    occur as tenant identifiers and are not represented.
  \<^item> A string is a list of 8-bit code units.
  \<^item> An object is the list of its own properties; the first binding of a key counts.
    What a value inherits from its prototype chain, and the \<open>length\<close> and elements of
    strings and arrays, are given by the host (see \<open>lookup\<close> below).
  \<^item> A function is a reference \<open>JFun f\<close>; what calling it does is given by the host
    (see \<open>host\<close> below), as its settled outcome: a returned (or resolved) value, or a
    thrown (or rejected) one.
\<close>

type_synonym fn_ref = nat

datatype jsval =
    JUndefined
  | JNull
  | JBool bool
  | JNum int
  | JNaN
  | JInfinity bool
  | JStr string
  | JObj "(string \<times> jsval) list"
  | JArr "jsval list"
  | JFun fn_ref

datatype error = TypeError | Thrown jsval

type_synonym 'a outcome = "error + 'a"

datatype jstype = TUndefined | TObject | TBoolean | TNumber | TString | TFunction

fun typeof :: "jsval \<Rightarrow> jstype" where
  "typeof JUndefined = TUndefined"
| "typeof JNull = TObject"
| "typeof (JBool b) = TBoolean"
| "typeof (JNum n) = TNumber"
| "typeof JNaN = TNumber"
| "typeof (JInfinity negative) = TNumber"
| "typeof (JStr s) = TString"
| "typeof (JObj kvs) = TObject"
| "typeof (JArr vs) = TObject"
| "typeof (JFun f) = TFunction"

text \<open>Truthiness, as \<open>if (v)\<close>, \<open>!v\<close>, \<open>&&\<close> and \<open>||\<close> test it.\<close>

fun truthy :: "jsval \<Rightarrow> bool" where
  "truthy JUndefined = False"
| "truthy JNull = False"
| "truthy (JBool b) = b"
| "truthy (JNum n) = (n \<noteq> 0)"
| "truthy JNaN = False"
| "truthy (JInfinity negative) = True"
| "truthy (JStr s) = (s \<noteq> [])"
| "truthy (JObj kvs) = True"
| "truthy (JArr vs) = True"
| "truthy (JFun f) = True"

definition nullish :: "jsval \<Rightarrow> bool" where
  "nullish v = (v = JUndefined \<or> v = JNull)"

text \<open>
  Reading a property whose name is fixed in the source (\<open>context\<close>, \<open>headers\<close>, \<open>cookie\<close>,
  \<open>cookies\<close>, \<open>get\<close>, \<open>user\<close>, \<open>tenants\<close>, \<open>tenant\<close>, \<open>id\<close>, \<open>_id\<close>, \<open>ID\<close>, \<open>role\<close>,
  \<open>req\<close>, \<open>payload\<close>, \<open>findByID\<close>, \<open>fieldName\<close>, \<open>selectedTenant\<close>) of a value that is
  neither \<open>null\<close> nor \<open>undefined\<close>. None of these names is a member of a built-in
  prototype or a property that strings, arrays or functions carry, so such a read finds
  an own property or nothing. Reads under a name that comes from the input go through
  \<open>lookup\<close> below.
\<close>

fun own :: "jsval \<Rightarrow> string \<Rightarrow> jsval" where
  "own (JObj kvs) k = (case map_of kvs k of None \<Rightarrow> JUndefined | Some v \<Rightarrow> v)"
| "own v k = JUndefined"

text \<open>\<open>v.k\<close> raises a TypeError on \<open>null\<close> and \<open>undefined\<close>; \<open>v?.k\<close> gives \<open>undefined\<close> there.\<close>

definition get_prop :: "jsval \<Rightarrow> string \<Rightarrow> jsval outcome" where
  "get_prop v k = (if nullish v then Inl TypeError else Inr (own v k))"

definition opt_prop :: "jsval \<Rightarrow> string \<Rightarrow> jsval" where
  "opt_prop v k = (if nullish v then JUndefined else own v k)"

text \<open>\<open>a ?? b\<close>\<close>

definition coalesce :: "jsval \<Rightarrow> jsval \<Rightarrow> jsval" where
  "coalesce a b = (if nullish a then b else a)"

definition isArray :: "jsval \<Rightarrow> bool" where
  "isArray v = (case v of JArr vs \<Rightarrow> True | _ \<Rightarrow> False)"

subsection \<open>The host\<close>

text \<open>
  What the runtime and the host framework supply:
  \<^item> \<open>call\<close>: the outcome of calling a function value on its arguments;
  \<^item> \<open>to_string\<close>: \<open>ToString\<close> of a value that is not a string (used by \<open>parseInt\<close> on a
    non-string argument and by a template literal);
  \<^item> \<open>inherited\<close>: what reading \<open>v[k]\<close> yields when \<open>k\<close> is not an own property listed in
    \<open>v\<close>: a member of the prototype chain of \<open>v\<close> (for an object \<open>toString\<close>,
    \<open>constructor\<close> and the other members of \<open>Object.prototype\<close>), the \<open>length\<close> or an
    element of a string or array, and \<open>undefined\<close> when there is none;
  \<^item> \<open>rounded\<close>: the double that stands for an integer beyond \<open>2^53\<close> in absolute
    value, \<open>None\<close> when it is out of the range of doubles (an infinity).
\<close>

record host =
  call :: "fn_ref \<Rightarrow> jsval list \<Rightarrow> jsval outcome"
  to_string :: "jsval \<Rightarrow> string"
  inherited :: "jsval \<Rightarrow> string \<Rightarrow> jsval"
  rounded :: "int \<Rightarrow> int option"

text \<open>\<open>v[k]\<close> under a name \<open>k\<close> that comes from the input, for a value that is neither
  \<open>null\<close> nor \<open>undefined\<close>: an own property first, then what the value inherits.
  \<open>v?.[k]\<close> gives \<open>undefined\<close> on \<open>null\<close> and \<open>undefined\<close>.\<close>

definition lookup :: "host \<Rightarrow> jsval \<Rightarrow> string \<Rightarrow> jsval" where
  "lookup h v k =
     (case v of
        JObj kvs \<Rightarrow> (case map_of kvs k of None \<Rightarrow> inherited h v k | Some x \<Rightarrow> x)
      | _ \<Rightarrow> inherited h v k)"

definition opt_lookup :: "host \<Rightarrow> jsval \<Rightarrow> string \<Rightarrow> jsval" where
  "opt_lookup h v k = (if nullish v then JUndefined else lookup h v k)"

subsection \<open>String built-ins\<close>

text \<open>White space of \<open>String.prototype.trim\<close> and \<open>parseInt\<close> within 8-bit code units:
  TAB, LF, VT, FF, CR, SP and NBSP.\<close>

definition is_space :: "char \<Rightarrow> bool" where
  "is_space c = ((of_char c :: nat) \<in> {9, 10, 11, 12, 13, 32, 160})"

definition is_digit :: "char \<Rightarrow> bool" where
  "is_digit c = (48 \<le> (of_char c :: nat) \<and> (of_char c :: nat) \<le> 57)"

definition digit_value :: "char \<Rightarrow> int" where
  "digit_value c = int (of_char c) - 48"

definition trim :: "string \<Rightarrow> string" where
  "trim s = rev (dropWhile is_space (rev (dropWhile is_space s)))"

definition startsWith :: "string \<Rightarrow> string \<Rightarrow> bool" where
  "startsWith s p = (take (length p) s = p)"

text \<open>\<open>s.split(d)\<close> for a one-character separator: \<open>''''.split(d)\<close> is \<open>['''']\<close>.\<close>

fun split :: "char \<Rightarrow> string \<Rightarrow> string list" where
  "split d [] = [[]]"
| "split d (c # cs) =
     (if c = d then [] # split d cs
      else (case split d cs of [] \<Rightarrow> [[c]] | w # ws \<Rightarrow> (c # w) # ws))"

text \<open>
  \<open>parseInt(s, 10)\<close> on a string, up to the mathematical integer it reads: skip leading
  white space, read an optional sign, then the longest run of decimal digits; no digit
  gives \<open>NaN\<close> (\<open>None\<close>), anything after the digits is ignored.
\<close>

definition digits_value :: "string \<Rightarrow> int" where
  "digits_value ds = foldl (\<lambda>a c. 10 * a + digit_value c) 0 ds"

definition mathInt :: "string \<Rightarrow> int option" where
  "mathInt s =
     (let t = dropWhile is_space s;
          neg = (case t of [] \<Rightarrow> False | c # r \<Rightarrow> c = CHR ''-'');
          u = (case t of [] \<Rightarrow> [] | c # r \<Rightarrow> if c = CHR ''-'' \<or> c = CHR ''+'' then r else t);
          z = takeWhile is_digit u
      in if z = [] then None
         else Some (if neg then - digits_value z else digits_value z))"

text \<open>The Number for a mathematical integer: the integer itself up to \<open>2^53\<close> in absolute
  value, where every integer is a double; beyond, the double the runtime rounds it to,
  or an infinity.\<close>

definition to_number :: "host \<Rightarrow> int \<Rightarrow> jsval" where
  "to_number h n =
     (if \<bar>n\<bar> \<le> 2 ^ 53 then JNum n
      else (case rounded h n of None \<Rightarrow> JInfinity (n < 0) | Some m \<Rightarrow> JNum m))"

text \<open>\<open>parseInt(value, 10)\<close>: a non-string argument goes through \<open>ToString\<close> first; the
  result is a Number, \<open>NaN\<close> when no digit is read.\<close>

definition parseInt :: "host \<Rightarrow> jsval \<Rightarrow> jsval" where
  "parseInt h value =
     (case mathInt (case value of JStr s \<Rightarrow> s | _ \<Rightarrow> to_string h value) of
        None \<Rightarrow> JNaN
      | Some n \<Rightarrow> to_number h n)"

section \<open>lib/helpers.ts\<close>

subsection \<open>extractTenantId\<close>

definition extractTenantId :: "jsval \<Rightarrow> jsval" where
  "extractTenantId tenant =
     (if \<not> truthy tenant then JNull
      else if typeof tenant = TNumber then tenant
      else if typeof tenant = TString then tenant
      else if typeof tenant = TObject then
        (let id = coalesce (own tenant ''id'') (coalesce (own tenant ''_id'') (own tenant ''ID''))
         in if id \<noteq> JUndefined \<and> id \<noteq> JNull then id else JNull)
      else JNull)"

subsection \<open>getSelectedTenantFromCookie\<close>

text \<open>
  \<open>isNaN(numValue) ? value : numValue\<close> for \<open>numValue = parseInt(value, 10)\<close>.
\<close>

definition number_or_raw :: "host \<Rightarrow> jsval \<Rightarrow> jsval" where
  "number_or_raw h value =
     (let numValue = parseInt h value in if numValue = JNaN then value else numValue)"

text \<open>
  Methods 2 and 4 run the same text on a cookie header string. \<open>cookie_value\<close> is the
  variable \<open>value\<close> there: the segment of the header (split on \<open>;\<close>) that, trimmed, starts
  with \<open>cookieName=\<close>; of that segment the second piece of a split on \<open>=\<close>, trimmed.
  \<open>None\<close> stands for no such segment and for \<open>undefined\<close>.
\<close>

definition cookie_value :: "string \<Rightarrow> string \<Rightarrow> string option" where
  "cookie_value cookieName header =
     (case find (\<lambda>c. startsWith (trim c) (cookieName @ ''='')) (split CHR '';'' header) of
        None \<Rightarrow> None
      | Some tenantCookie \<Rightarrow>
          if tenantCookie \<noteq> [] then
            (case split CHR ''='' tenantCookie of
               p # v # rest \<Rightarrow> Some (trim v)
             | _ \<Rightarrow> None)
          else None)"

text \<open>
  The methods return \<open>Some v\<close> where the source returns \<open>v\<close>, and \<open>None\<close> where control
  falls through to the next method.
\<close>

definition from_header :: "host \<Rightarrow> string \<Rightarrow> string \<Rightarrow> jsval option" where
  "from_header h cookieName header =
     (case cookie_value cookieName header of
        None \<Rightarrow> None
      | Some value \<Rightarrow>
          if value \<noteq> [] \<and> value \<noteq> ''all'' then Some (number_or_raw h (JStr value)) else None)"

definition from_context :: "jsval \<Rightarrow> jsval option" where
  "from_context req =
     (let selectedTenant = opt_prop (opt_prop req ''context'') ''selectedTenant''
      in if selectedTenant \<noteq> JUndefined then Some selectedTenant else None)"

definition from_cookie_header :: "host \<Rightarrow> jsval \<Rightarrow> string \<Rightarrow> jsval option outcome" where
  "from_cookie_header h req cookieName =
     (let cookie = opt_prop (opt_prop req ''headers'') ''cookie''
      in if truthy cookie then
           (case cookie of
              JStr s \<Rightarrow> Inr (from_header h cookieName s)
            | _ \<Rightarrow> Inl TypeError)
         else Inr None)"

definition from_cookies :: "host \<Rightarrow> jsval \<Rightarrow> string \<Rightarrow> jsval option" where
  "from_cookies h req cookieName =
     (let value = opt_lookup h (opt_prop req ''cookies'') cookieName
      in if truthy value then
           (if value \<noteq> JStr ''all'' then Some (number_or_raw h value) else None)
         else None)"

definition from_headers_get :: "host \<Rightarrow> jsval \<Rightarrow> string \<Rightarrow> jsval option outcome" where
  "from_headers_get h req cookieName =
     (let getter = opt_prop (opt_prop req ''headers'') ''get''
      in if truthy getter then
           (case getter of
              JFun g \<Rightarrow>
                (case call h g [JStr ''cookie''] of
                   Inl e \<Rightarrow> Inl e
                 | Inr cookieHeader \<Rightarrow>
                     if truthy cookieHeader then
                       (case cookieHeader of
                          JStr s \<Rightarrow> Inr (from_header h cookieName s)
                        | _ \<Rightarrow> Inl TypeError)
                     else Inr None)
            | _ \<Rightarrow> Inl TypeError)
         else Inr None)"

text \<open>The \<open>try\<close> block, followed by the final \<open>return null\<close>.\<close>

definition selection_body :: "host \<Rightarrow> jsval \<Rightarrow> string \<Rightarrow> jsval outcome" where
  "selection_body h req cookieName =
     (case from_context req of
        Some v \<Rightarrow> Inr v
      | None \<Rightarrow>
         (case from_cookie_header h req cookieName of
            Inl e \<Rightarrow> Inl e
          | Inr (Some v) \<Rightarrow> Inr v
          | Inr None \<Rightarrow>
             (case from_cookies h req cookieName of
                Some v \<Rightarrow> Inr v
              | None \<Rightarrow>
                 (case from_headers_get h req cookieName of
                    Inl e \<Rightarrow> Inl e
                  | Inr (Some v) \<Rightarrow> Inr v
                  | Inr None \<Rightarrow> Inr JNull))))"

text \<open>The \<open>catch\<close> is empty, so a raised error also ends in \<open>return null\<close>.\<close>

definition getSelectedTenantFromCookie :: "host \<Rightarrow> jsval \<Rightarrow> string \<Rightarrow> jsval outcome" where
  "getSelectedTenantFromCookie h req cookieName =
     (case selection_body h req cookieName of
        Inl e \<Rightarrow> Inr JNull
      | Inr v \<Rightarrow> Inr v)"

subsection \<open>getUserTenantIds\<close>

text \<open>\<open>tenants.map((t) => extractTenantId(t.tenant))\<close>: reading \<open>t.tenant\<close> raises on an
  entry that is \<open>null\<close> or \<open>undefined\<close>, which ends the whole \<open>map\<close>.\<close>

fun map_tenant :: "jsval list \<Rightarrow> jsval list outcome" where
  "map_tenant [] = Inr []"
| "map_tenant (t # ts) =
     (case get_prop t ''tenant'' of
        Inl e \<Rightarrow> Inl e
      | Inr v \<Rightarrow>
         (case map_tenant ts of
            Inl e \<Rightarrow> Inl e
          | Inr ids \<Rightarrow> Inr (extractTenantId v # ids)))"

text \<open>\<open>.map(...).filter((id) => id !== null)\<close>\<close>

definition resolve_tenants :: "jsval list \<Rightarrow> jsval list outcome" where
  "resolve_tenants ts =
     (case map_tenant ts of
        Inl e \<Rightarrow> Inl e
      | Inr ids \<Rightarrow> Inr (filter (\<lambda>id. id \<noteq> JNull) ids))"

text \<open>The document store is the value \<open>payload\<close>; its method \<open>findByID\<close> is a function
  value, called through the host.\<close>

definition findByID_args :: "jsval \<Rightarrow> jsval" where
  "findByID_args userId =
     JObj [(''collection'', JStr ''users''), (''id'', userId), (''depth'', JNum 2)]"

definition lookup_body :: "host \<Rightarrow> jsval \<Rightarrow> jsval \<Rightarrow> jsval list outcome" where
  "lookup_body h userId payload =
     (case get_prop payload ''findByID'' of
        Inl e \<Rightarrow> Inl e
      | Inr m \<Rightarrow>
         (case m of
            JFun g \<Rightarrow>
              (case call h g [findByID_args userId] of
                 Inl e \<Rightarrow> Inl e
               | Inr userDoc \<Rightarrow>
                   if truthy userDoc \<and> truthy (own userDoc ''tenants'')
                      \<and> isArray (own userDoc ''tenants'')
                   then (case own userDoc ''tenants'' of
                           JArr ts \<Rightarrow> resolve_tenants ts
                         | _ \<Rightarrow> Inr [])
                   else Inr [])
          | _ \<Rightarrow> Inl TypeError))"

definition getUserTenantIds :: "host \<Rightarrow> jsval \<Rightarrow> jsval \<Rightarrow> jsval list outcome" where
  "getUserTenantIds h userId payload =
     (case lookup_body h userId payload of
        Inl e \<Rightarrow> Inr []
      | Inr ids \<Rightarrow> Inr ids)"

subsection \<open>getTenantFilterOptions\<close>

text \<open>The function that \<open>getTenantFilterOptions()\<close> returns, applied to its argument
  \<open>{ user, req }\<close>.\<close>

definition getTenantFilterOptions :: "host \<Rightarrow> jsval \<Rightarrow> jsval outcome" where
  "getTenantFilterOptions h args =
     (case get_prop args ''user'' of
        Inl e \<Rightarrow> Inl e
      | Inr user \<Rightarrow>
          if opt_prop user ''role'' = JStr ''super-admin'' then Inr (JBool True)
          else if truthy (opt_prop user ''id'') then
            (case get_prop (own args ''req'') ''payload'' of
               Inl e \<Rightarrow> Inl e
             | Inr payload \<Rightarrow>
                (case getUserTenantIds h (own user ''id'') payload of
                   Inl e \<Rightarrow> Inl e
                 | Inr tenantIds \<Rightarrow>
                     if length tenantIds > 0
                     then Inr (JObj [(''id'', JObj [(''in'', JArr tenantIds)])])
                     else Inr (JBool False)))
          else Inr (JBool False))"

section \<open>plugin.ts\<close>

subsection \<open>extractUserTenantIds\<close>

definition extractUserTenantIds :: "jsval \<Rightarrow> jsval list outcome" where
  "extractUserTenantIds user =
     (if \<not> truthy (opt_prop user ''tenants'') \<or> \<not> isArray (opt_prop user ''tenants'')
      then Inr []
      else (case opt_prop user ''tenants'' of
              JArr ts \<Rightarrow> resolve_tenants ts
            | _ \<Rightarrow> Inr []))"

subsection \<open>Access rules\<close>

text \<open>
  An entry of a collection's \<open>access\<close> object is either a value of the incoming config
  (\<open>undefined\<close>, a function value, or a static value) or one of the closures the plugin
  installs. \<open>typeof rule === 'function'\<close> holds of function values and of closures.
\<close>

datatype handler =
    Given jsval
  | Installed "host \<Rightarrow> jsval \<Rightarrow> jsval outcome"

fun is_function :: "handler \<Rightarrow> bool" where
  "is_function (Given v) = (typeof v = TFunction)"
| "is_function (Installed f) = True"

text \<open>\<open>await rule(args)\<close>\<close>

fun invoke :: "host \<Rightarrow> handler \<Rightarrow> jsval \<Rightarrow> jsval outcome" where
  "invoke h (Given (JFun g)) args = call h g [args]"
| "invoke h (Given v) args = Inl TypeError"
| "invoke h (Installed f) args = f h args"

text \<open>\<open>rule !== undefined ? rule : dflt\<close>, for a rule that is not a function.\<close>

fun static_or :: "handler \<Rightarrow> bool \<Rightarrow> jsval" where
  "static_or (Given v) dflt = (if v \<noteq> JUndefined then v else JBool dflt)"
| "static_or (Installed f) dflt = JUndefined"

definition equals_filter :: "string \<Rightarrow> jsval \<Rightarrow> jsval" where
  "equals_filter fieldName selectedTenant =
     JObj [(fieldName @ ''.tenant'', JObj [(''equals'', selectedTenant)])]"

definition in_filter :: "string \<Rightarrow> jsval list \<Rightarrow> jsval" where
  "in_filter fieldName userTenantIds =
     JObj [(fieldName @ ''.tenant'', JObj [(''in'', JArr userTenantIds)])]"

definition and_filter :: "jsval \<Rightarrow> jsval \<Rightarrow> jsval" where
  "and_filter filter_obj originalResult = JObj [(''and'', JArr [filter_obj, originalResult])]"

text \<open>"Merge with original access control": the filter, conjoined with the original
  rule's result when that rule is a function and its result has \<open>typeof\<close> \<open>'object'\<close>.\<close>

definition merge_original :: "host \<Rightarrow> jsval \<Rightarrow> handler \<Rightarrow> jsval \<Rightarrow> jsval outcome" where
  "merge_original h filter_obj original args =
     (if is_function original then
        (case invoke h original args of
           Inl e \<Rightarrow> Inl e
         | Inr originalResult \<Rightarrow>
             if typeof originalResult = TObject
             then Inr (and_filter filter_obj originalResult)
             else Inr filter_obj)
      else Inr filter_obj)"

text \<open>\<open>const { req } = args\<close> followed by the first use \<open>req.user\<close>.\<close>

definition request_of :: "jsval \<Rightarrow> jsval outcome" where
  "request_of args = get_prop args ''req''"

definition user_of :: "jsval \<Rightarrow> jsval outcome" where
  "user_of req = get_prop req ''user''"

text \<open>The \<open>create\<close> closure (plugin.ts, lines 121 to 137).\<close>

definition create_rule ::
  "host \<Rightarrow> (jsval \<Rightarrow> bool) \<Rightarrow> handler \<Rightarrow> jsval \<Rightarrow> jsval outcome" where
  "create_rule h userHasAccessToAllTenants original args =
     (case request_of args of
        Inl e \<Rightarrow> Inl e
      | Inr req \<Rightarrow>
         (case user_of req of
            Inl e \<Rightarrow> Inl e
          | Inr user \<Rightarrow>
              if userHasAccessToAllTenants user then
                (if is_function original then invoke h original args
                 else Inr (static_or original True))
              else
                (if is_function original then invoke h original args
                 else Inr (static_or original False))))"

text \<open>
  The \<open>read\<close>, \<open>update\<close> and \<open>delete\<close> closures (lines 139 to 199, 201 to 257 and 259 to
  315) have the same text but for the entry of \<open>originalAccess\<close> they consult; that
  entry is the argument \<open>original\<close>.
\<close>

definition scoped_rule ::
  "host \<Rightarrow> (jsval \<Rightarrow> bool) \<Rightarrow> string \<Rightarrow> string \<Rightarrow> handler \<Rightarrow> jsval \<Rightarrow> jsval outcome" where
  "scoped_rule h userHasAccessToAllTenants cookieName fieldName original args =
     (case request_of args of
        Inl e \<Rightarrow> Inl e
      | Inr req \<Rightarrow>
         (case user_of req of
            Inl e \<Rightarrow> Inl e
          | Inr user \<Rightarrow>
              if userHasAccessToAllTenants user then
                (case getSelectedTenantFromCookie h req cookieName of
                   Inl e \<Rightarrow> Inl e
                 | Inr selectedTenant \<Rightarrow>
                     if truthy selectedTenant then
                       merge_original h (equals_filter fieldName selectedTenant) original args
                     else if is_function original then invoke h original args
                     else Inr (static_or original True))
              else
                (case extractUserTenantIds user of
                   Inl e \<Rightarrow> Inl e
                 | Inr userTenantIds \<Rightarrow>
                     if length userTenantIds > 0 then
                       merge_original h (in_filter fieldName userTenantIds) original args
                     else Inr (JBool False))))"

text \<open>\<open>originalAccess\<close> is \<open>collection.access || {}\<close>; a missing key reads as \<open>undefined\<close>.\<close>

type_synonym access = "string \<rightharpoonup> handler"

definition entry :: "access \<Rightarrow> string \<Rightarrow> handler" where
  "entry originalAccess k = (case originalAccess k of None \<Rightarrow> Given JUndefined | Some r \<Rightarrow> r)"

definition access_create ::
  "host \<Rightarrow> (jsval \<Rightarrow> bool) \<Rightarrow> access \<Rightarrow> jsval \<Rightarrow> jsval outcome" where
  "access_create h userHasAccessToAllTenants originalAccess =
     create_rule h userHasAccessToAllTenants (entry originalAccess ''create'')"

definition access_read ::
  "host \<Rightarrow> (jsval \<Rightarrow> bool) \<Rightarrow> string \<Rightarrow> string \<Rightarrow> access \<Rightarrow> jsval \<Rightarrow> jsval outcome" where
  "access_read h userHasAccessToAllTenants cookieName fieldName originalAccess =
     scoped_rule h userHasAccessToAllTenants cookieName fieldName (entry originalAccess ''read'')"

definition access_update ::
  "host \<Rightarrow> (jsval \<Rightarrow> bool) \<Rightarrow> string \<Rightarrow> string \<Rightarrow> access \<Rightarrow> jsval \<Rightarrow> jsval outcome" where
  "access_update h userHasAccessToAllTenants cookieName fieldName originalAccess =
     scoped_rule h userHasAccessToAllTenants cookieName fieldName (entry originalAccess ''update'')"

definition access_delete ::
  "host \<Rightarrow> (jsval \<Rightarrow> bool) \<Rightarrow> string \<Rightarrow> string \<Rightarrow> access \<Rightarrow> jsval \<Rightarrow> jsval outcome" where
  "access_delete h userHasAccessToAllTenants cookieName fieldName originalAccess =
     scoped_rule h userHasAccessToAllTenants cookieName fieldName (entry originalAccess ''delete'')"

subsection \<open>multiTenantPlugin\<close>

text \<open>
  A collection entry is an object with a \<open>slug\<close>, optional \<open>fields\<close> and \<open>access\<close>, and
  further properties that the plugin copies with \<open>...collection\<close> (the extension part
  of the record). Field configs of the host are opaque values; the plugin adds an array
  field with one relationship field inside. The \<open>admin.condition\<close> of the array field
  ignores its first two arguments and applies the elevated-access predicate to the user
  of the third, so it is kept as that predicate.

  The \<open>collections\<close> option is a plain object, given by its own properties (slug and
  options object). The plugin reads it with \<open>collections[collectionSlug]\<close>, a read under
  a name from the input, which also finds what a plain object inherits.
\<close>

datatype field =
    HostField jsval
  | ArrayField jsval string string "jsval \<Rightarrow> bool" "field list"
  | RelationshipField string string bool

record collection =
  slug :: string
  collection_fields :: "field list option"
  collection_access :: "access option"

record 'c config =
  collections :: "'c collection_scheme list option"

record plugin_options =
  tenantsSlug :: "string option"
  option_collections :: "(string \<times> jsval) list option"
  userHasAccessToAllTenants :: "(jsval \<Rightarrow> bool) option"
  cookieName :: "string option"
  authCollectionSlug :: "string option"

text \<open>A destructuring default applies where the option is \<open>undefined\<close>.\<close>

definition default_to :: "'a \<Rightarrow> 'a option \<Rightarrow> 'a" where
  "default_to d v = (case v of None \<Rightarrow> d | Some x \<Rightarrow> x)"

definition default_elevated :: "jsval \<Rightarrow> bool" where
  "default_elevated user = (opt_prop user ''role'' = JStr ''super-admin'')"

definition tenants_field :: "jsval \<Rightarrow> string \<Rightarrow> (jsval \<Rightarrow> bool) \<Rightarrow> field" where
  "tenants_field name relationTo elevated =
     ArrayField name ''Tenants'' ''Tenants that have access to this document'' elevated
       [RelationshipField ''tenant'' relationTo True]"

text \<open>The text that a template literal puts for \<open>${v}\<close>.\<close>

definition interpolate :: "host \<Rightarrow> jsval \<Rightarrow> string" where
  "interpolate h v = (case v of JStr s \<Rightarrow> s | _ \<Rightarrow> to_string h v)"

text \<open>The part of the \<open>map\<close> callback after the "Skip if not configured" test (lines 87
  to 318), for a truthy \<open>collectionConfig\<close>.\<close>

definition scope_collection ::
  "string \<Rightarrow> (jsval \<Rightarrow> bool) \<Rightarrow> string \<Rightarrow> jsval
     \<Rightarrow> 'c collection_scheme \<Rightarrow> 'c collection_scheme" where
  "scope_collection tenants elevated cookie collectionConfig collection =
     (let name = (if truthy (own collectionConfig ''fieldName'')
                  then own collectionConfig ''fieldName'' else JStr ''tenants'');
          originalAccess = default_to Map.empty (collection_access collection)
      in collection
           \<lparr> collection_fields :=
               Some (default_to [] (collection_fields collection)
                     @ [tenants_field name tenants elevated]),
             collection_access := Some (originalAccess
               (''create'' \<mapsto> Installed (\<lambda>h. access_create h elevated originalAccess),
                ''read'' \<mapsto> Installed (\<lambda>h.
                   access_read h elevated cookie (interpolate h name) originalAccess),
                ''update'' \<mapsto> Installed (\<lambda>h.
                   access_update h elevated cookie (interpolate h name) originalAccess),
                ''delete'' \<mapsto> Installed (\<lambda>h.
                   access_delete h elevated cookie (interpolate h name) originalAccess))) \<rparr>)"

definition multiTenantPlugin ::
  "host \<Rightarrow> plugin_options \<Rightarrow> ('c, 'z) config_scheme \<Rightarrow> ('c, 'z) config_scheme" where
  "multiTenantPlugin h pluginOptions incomingConfig =
     (let tenants = default_to ''tenants'' (tenantsSlug pluginOptions);
          configured = JObj (default_to [] (option_collections pluginOptions));
          elevated = default_to default_elevated (userHasAccessToAllTenants pluginOptions);
          cookie = default_to ''payload-selected-tenant'' (cookieName pluginOptions)
      in case collections incomingConfig of
           None \<Rightarrow> incomingConfig
         | Some cs \<Rightarrow>
             incomingConfig
               \<lparr> collections := Some (map (\<lambda>collection.
                    let collectionConfig = lookup h configured (slug collection)
                    in if \<not> truthy collectionConfig then collection
                       else scope_collection tenants elevated cookie collectionConfig
                              collection) cs) \<rparr>)"

section \<open>A standard runtime, for closed examples\<close>

text \<open>The decimal numeral of an integer, as \<open>String(n)\<close> writes an integer that a double
  holds exactly (below \<open>10^21\<close> in absolute value): a string round-trips as a base-10
  integer when it is \<open>decimal n\<close> for such an \<open>n\<close>.\<close>

definition digit_char :: "nat \<Rightarrow> char" where
  "digit_char d = char_of (48 + d)"

fun digits_of :: "nat \<Rightarrow> string" where
  "digits_of n = (if n < 10 then [digit_char n] else digits_of (n div 10) @ [digit_char (n mod 10)])"

definition decimal :: "int \<Rightarrow> string" where
  "decimal i = (if i < 0 then CHR ''-'' # digits_of (nat (- i)) else digits_of (nat i))"

text \<open>
  The members of \<open>Object.prototype\<close>, which every value other than \<open>null\<close> and
  \<open>undefined\<close> inherits. All are functions but \<open>__proto__\<close>, which reads as the prototype
  object; the function found under the \<open>i\<close>-th name is the reference \<open>1000 + i\<close>.
\<close>

definition object_prototype_names :: "string list" where
  "object_prototype_names =
     [''constructor'', ''hasOwnProperty'', ''isPrototypeOf'', ''propertyIsEnumerable'',
      ''toLocaleString'', ''toString'', ''valueOf'', ''__defineGetter__'',
      ''__defineSetter__'', ''__lookupGetter__'', ''__lookupSetter__'']"

fun index_of :: "string \<Rightarrow> string list \<Rightarrow> nat option" where
  "index_of k [] = None"
| "index_of k (n # ns) =
     (if k = n then Some 0 else (case index_of k ns of None \<Rightarrow> None | Some i \<Rightarrow> Some (Suc i)))"

text \<open>An array index: the decimal numeral of a position below the length.\<close>

definition element_index :: "string \<Rightarrow> nat \<Rightarrow> nat option" where
  "element_index k len = find (\<lambda>i. digits_of i = k) [0..<len]"

text \<open>What the standard runtime finds under a name that is not an own property listed
  in the value: the length and the elements of a string or an array, then the members of
  \<open>Object.prototype\<close>. The further members of the other built-in prototypes (the
  methods of strings and arrays, the \<open>name\<close> and \<open>length\<close> of a function) are left out.\<close>

definition std_inherited :: "jsval \<Rightarrow> string \<Rightarrow> jsval" where
  "std_inherited v k =
     (let from_object =
            (case index_of k object_prototype_names of
               Some i \<Rightarrow> JFun (1000 + i)
             | None \<Rightarrow> if k = ''__proto__'' then JObj [] else JUndefined)
      in case v of
           JStr s \<Rightarrow>
             if k = ''length'' then JNum (int (length s))
             else (case element_index k (length s) of
                     Some i \<Rightarrow> JStr [s ! i]
                   | None \<Rightarrow> from_object)
         | JArr vs \<Rightarrow>
             if k = ''length'' then JNum (int (length vs))
             else (case element_index k (length vs) of
                     Some i \<Rightarrow> vs ! i
                   | None \<Rightarrow> from_object)
         | JUndefined \<Rightarrow> JUndefined
         | JNull \<Rightarrow> JUndefined
         | _ \<Rightarrow> from_object)"

text \<open>\<open>Array.prototype.join\<close> with a comma.\<close>

fun join_comma :: "string list \<Rightarrow> string" where
  "join_comma [] = []"
| "join_comma [x] = x"
| "join_comma (x # y # ys) = x @ CHR '','' # join_comma (y # ys)"

text \<open>\<open>ToString\<close> of the standard runtime. An array prints as its elements joined by
  commas, \<open>null\<close> and \<open>undefined\<close> elements as nothing. A number prints as its decimal
  numeral, which is what the runtime does below \<open>10^21\<close> in absolute value (from there on
  it prints in exponent notation, left out here).\<close>

fun std_to_string :: "jsval \<Rightarrow> string" where
  "std_to_string JUndefined = ''undefined''"
| "std_to_string JNull = ''null''"
| "std_to_string (JBool b) = (if b then ''true'' else ''false'')"
| "std_to_string (JNum n) = decimal n"
| "std_to_string JNaN = ''NaN''"
| "std_to_string (JInfinity negative) = (if negative then ''-Infinity'' else ''Infinity'')"
| "std_to_string (JStr s) = s"
| "std_to_string (JObj kvs) = ''[object Object]''"
| "std_to_string (JArr vs) =
     join_comma (map (\<lambda>v. if nullish v then [] else std_to_string v) vs)"
| "std_to_string (JFun f) = ''function () { [native code] }''"

text \<open>Rounding an integer beyond \<open>2^53\<close> to the nearest double, ties to even; from
  \<open>2^1024\<close> on the result is an infinity.\<close>

function bit_length :: "int \<Rightarrow> nat" where
  "bit_length n = (if n \<le> 0 then 0 else Suc (bit_length (n div 2)))"
  by pat_completeness auto
termination
  by (relation "measure nat") auto

definition round_nearest :: "int \<Rightarrow> int" where
  "round_nearest n =
     (let k = bit_length n - 53;
          q = n div 2 ^ k;
          r = n mod 2 ^ k;
          q' = (if 2 * r > 2 ^ k \<or> (2 * r = 2 ^ k \<and> odd q) then q + 1 else q)
      in q' * 2 ^ k)"

definition std_rounded :: "int \<Rightarrow> int option" where
  "std_rounded n =
     (let m = round_nearest \<bar>n\<bar>
      in if m \<ge> 2 ^ 1024 then None else Some (if n < 0 then - m else m))"

text \<open>The standard runtime in which no function value can be called.\<close>

definition bare_host :: host where
  "bare_host =
     \<lparr> call = (\<lambda>f args. Inl TypeError), to_string = std_to_string,
       inherited = std_inherited, rounded = std_rounded \<rparr>"

text \<open>A host whose function value 0 is a \<open>headers.get\<close> that answers \<open>get('cookie')\<close>
  with the given header string.\<close>

definition getter_host :: "string \<Rightarrow> host" where
  "getter_host header =
     bare_host \<lparr> call := (\<lambda>f args. if f = 0 \<and> args = [JStr ''cookie''] then Inr (JStr header)
                                  else Inl TypeError) \<rparr>"

text \<open>A host whose function value 0 ends with the given outcome whatever its arguments:
  a document store whose \<open>findByID\<close> returns a fixed document, or fails; a collection
  rule with a fixed answer.\<close>

definition store_host :: "jsval outcome \<Rightarrow> host" where
  "store_host result =
     bare_host \<lparr> call := (\<lambda>f args. if f = 0 then result else Inl TypeError) \<rparr>"

text \<open>A host whose function value 0 is a collection rule that reads the request's
  pre-parsed cookies:
  \<open>({ req }) => ({ site: { equals: req.cookies['payload-selected-tenant'] } })\<close>.\<close>

definition cookie_rule_host :: host where
  "cookie_rule_host =
     bare_host \<lparr> call := (\<lambda>f args.
          case args of
            [a] \<Rightarrow>
              (case get_prop (own a ''req'') ''cookies'' of
                 Inl e \<Rightarrow> Inl e
               | Inr cs \<Rightarrow>
                   if f = 0
                   then Inr (JObj [(''site'',
                          JObj [(''equals'', own cs ''payload-selected-tenant'')])])
                   else Inl TypeError)
          | _ \<Rightarrow> Inl TypeError) \<rparr>"

section \<open>Properties of the tenant-ID extractor\<close>

text \<open>
  What \<open>extractTenantId\<close> does on truthy references: a non-zero number and a non-empty
  string are returned unchanged; an object yields the first of its \<open>id\<close>, \<open>_id\<close>, \<open>ID\<close>
  that is neither \<open>null\<close> nor \<open>undefined\<close>, and \<open>null\<close> when there is none; \<open>null\<close> and
  \<open>undefined\<close> yield \<open>null\<close>.
\<close>

lemma extractTenantId_shapes:
  "(n \<noteq> 0 \<longrightarrow> extractTenantId (JNum n) = JNum n)
   \<and> (s \<noteq> [] \<longrightarrow> extractTenantId (JStr s) = JStr s)
   \<and> (\<not> nullish v \<longrightarrow>
        extractTenantId (JObj [(''id'', v)]) = v
        \<and> extractTenantId (JObj [(''_id'', v)]) = v
        \<and> extractTenantId (JObj [(''ID'', v)]) = v)
   \<and> (\<not> nullish (own (JObj kvs) ''id'') \<longrightarrow>
        extractTenantId (JObj kvs) = own (JObj kvs) ''id'')
   \<and> (nullish (own (JObj kvs) ''id'') \<and> \<not> nullish (own (JObj kvs) ''_id'') \<longrightarrow>
        extractTenantId (JObj kvs) = own (JObj kvs) ''_id'')
   \<and> (nullish (own (JObj kvs) ''id'') \<and> nullish (own (JObj kvs) ''_id'')
        \<and> \<not> nullish (own (JObj kvs) ''ID'') \<longrightarrow>
        extractTenantId (JObj kvs) = own (JObj kvs) ''ID'')
   \<and> (nullish (own (JObj kvs) ''id'') \<and> nullish (own (JObj kvs) ''_id'')
        \<and> nullish (own (JObj kvs) ''ID'') \<longrightarrow>
        extractTenantId (JObj kvs) = JNull)
   \<and> extractTenantId JNull = JNull
   \<and> extractTenantId JUndefined = JNull"
  by (auto simp add: extractTenantId_def coalesce_def nullish_def Let_def)

text \<open>
  C5. The specification has \<open>extractTenantId\<close> return every raw number and every raw string
  unchanged. On the identifier \<open>0\<close>, and on the empty string, the function returns
  \<open>null\<close>: the guard \<open>if (!tenant) return null\<close>, meant for \<open>null\<close> and \<open>undefined\<close>, tests
  truthiness. The function's own object path keeps these identifiers: from \<open>{id: 0}\<close>
  it returns \<open>0\<close>. The remaining parts of the statement hold at their inputs: \<open>{id: 5}\<close>,
  \<open>{_id: 5}\<close> and \<open>{ID: 5}\<close> give \<open>5\<close>, and \<open>null\<close>, \<open>undefined\<close> and \<open>{}\<close> give \<open>null\<close>.
\<close>

theorem extractTenantId_drops_zero:
  "extractTenantId (JNum 0) = JNull
   \<and> extractTenantId (JObj [(''id'', JNum 0)]) = JNum 0
   \<and> extractTenantId (JStr []) = JNull
   \<and> extractTenantId (JObj [(''id'', JStr [])]) = JStr []
   \<and> extractTenantId (JNum 5) = JNum 5
   \<and> extractTenantId (JObj [(''id'', JNum 5)]) = JNum 5
   \<and> extractTenantId (JObj [(''_id'', JNum 5)]) = JNum 5
   \<and> extractTenantId (JObj [(''ID'', JNum 5)]) = JNum 5
   \<and> extractTenantId JNull = JNull
   \<and> extractTenantId JUndefined = JNull
   \<and> extractTenantId (JObj []) = JNull"
  by (simp add: extractTenantId_def coalesce_def nullish_def)

section \<open>Properties of the cookie-derived tenant selector\<close>

text \<open>
  C8. \<open>getSelectedTenantFromCookie\<close> never raises: for every host, request and cookie
  name it returns a value. A request that offers none of the four cookie shapes (no
  context selection, no usable \<open>headers.cookie\<close>, nothing found in \<open>cookies\<close> under the
  cookie name, no \<open>headers.get\<close>) gives \<open>null\<close>, and whenever the body of the \<open>try\<close>
  block raises, the error is swallowed and the result is \<open>null\<close>.
\<close>

theorem getSelectedTenantFromCookie_never_raises:
  "(\<exists>v. getSelectedTenantFromCookie h req cname = Inr v)
   \<and> (opt_prop (opt_prop req ''context'') ''selectedTenant'' = JUndefined
        \<and> \<not> truthy (opt_prop (opt_prop req ''headers'') ''cookie'')
        \<and> \<not> truthy (opt_lookup h (opt_prop req ''cookies'') cname)
        \<and> \<not> truthy (opt_prop (opt_prop req ''headers'') ''get'')
       \<longrightarrow> getSelectedTenantFromCookie h req cname = Inr JNull)
   \<and> (selection_body h req cname = Inl e
       \<longrightarrow> getSelectedTenantFromCookie h req cname = Inr JNull)"
  by (auto simp add: getSelectedTenantFromCookie_def selection_body_def from_context_def
      from_cookie_header_def from_cookies_def from_headers_get_def Let_def
      split: sum.splits option.splits)

text \<open>Malformed requests (a number, \<open>undefined\<close>, an empty object, an object whose
  \<open>cookies\<close> is a string), a request whose \<open>headers.cookie\<close> is a number, on which
  \<open>.split\<close> raises inside the \<open>try\<close> block, and a request whose empty \<open>cookies\<close> object
  is asked for the inherited name \<open>toString\<close>: a value is returned, not an error.\<close>

theorem getSelectedTenantFromCookie_never_raises_witness:
  "getSelectedTenantFromCookie bare_host (JNum 3) ''payload-selected-tenant'' = Inr JNull
   \<and> getSelectedTenantFromCookie bare_host JUndefined ''payload-selected-tenant'' = Inr JNull
   \<and> getSelectedTenantFromCookie bare_host (JObj []) ''payload-selected-tenant'' = Inr JNull
   \<and> getSelectedTenantFromCookie bare_host (JObj [(''cookies'', JStr ''x'')])
        ''payload-selected-tenant'' = Inr JNull
   \<and> selection_body bare_host
        (JObj [(''headers'', JObj [(''cookie'', JNum 5)])]) ''payload-selected-tenant''
        = Inl TypeError
   \<and> getSelectedTenantFromCookie bare_host
        (JObj [(''headers'', JObj [(''cookie'', JNum 5)])]) ''payload-selected-tenant''
        = Inr JNull
   \<and> (\<exists>v. getSelectedTenantFromCookie bare_host (JObj [(''cookies'', JObj [])]) ''toString''
          = Inr v)"
proof -
  let ?n = "''payload-selected-tenant''"
  have body: "selection_body bare_host
        (JObj [(''headers'', JObj [(''cookie'', JNum 5)])]) ?n = Inl TypeError"
    by code_simp
  have none: "\<not> truthy (opt_lookup bare_host (opt_prop (JNum 3) ''cookies'') ?n)"
    "\<not> truthy (opt_lookup bare_host (opt_prop JUndefined ''cookies'') ?n)"
    "\<not> truthy (opt_lookup bare_host (opt_prop (JObj []) ''cookies'') ?n)"
    "\<not> truthy (opt_lookup bare_host (opt_prop (JObj [(''cookies'', JStr ''x'')]) ''cookies'') ?n)"
    by code_simp+
  show ?thesis
    using body none
      getSelectedTenantFromCookie_never_raises [of bare_host "JNum 3" ?n]
      getSelectedTenantFromCookie_never_raises [of bare_host "JUndefined" ?n]
      getSelectedTenantFromCookie_never_raises [of bare_host "JObj []" ?n]
      getSelectedTenantFromCookie_never_raises
        [of bare_host "JObj [(''cookies'', JStr ''x'')]" ?n]
      getSelectedTenantFromCookie_never_raises
        [of bare_host "JObj [(''headers'', JObj [(''cookie'', JNum 5)])]" ?n TypeError]
      getSelectedTenantFromCookie_never_raises
        [of bare_host "JObj [(''cookies'', JObj [])]" "''toString''"]
    by (simp add: opt_prop_def nullish_def)
qed

text \<open>Under a cookie name that every object inherits, method 3 finds the inherited
  function in an empty \<open>cookies\<close> object and returns it.\<close>

lemma inherited_cookie_name:
  "getSelectedTenantFromCookie bare_host (JObj [(''cookies'', JObj [])]) ''toString''
     = Inr (JFun 1005)
   \<and> getSelectedTenantFromCookie bare_host
        (JObj [(''headers'', JObj [(''cookie'', JStr ''toString=all'')]), (''cookies'', JObj [])])
        ''toString''
     = Inr (JFun 1005)"
  by code_simp

subsection \<open>Decimal numerals\<close>

declare digits_of.simps [simp del]

lemma is_digit_digit_char: "d < 10 \<Longrightarrow> is_digit (digit_char d)"
  by (simp add: is_digit_def digit_char_def)

lemma digit_value_digit_char: "d < 10 \<Longrightarrow> digit_value (digit_char d) = int d"
  by (simp add: digit_value_def digit_char_def)

lemma digits_of_all_digits: "\<forall>c \<in> set (digits_of n). is_digit c"
proof (induction n rule: digits_of.induct)
  case (1 n)
  then show ?case
    by (subst digits_of.simps) (auto simp add: is_digit_digit_char)
qed

lemma digits_of_nonempty: "digits_of n \<noteq> []"
  by (subst digits_of.simps) simp

lemma digits_value_digits_of: "digits_value (digits_of n) = int n"
proof (induction n rule: digits_of.induct)
  case (1 n)
  show ?case
  proof (cases "n < 10")
    case True
    then show ?thesis
      by (subst digits_of.simps) (simp add: digits_value_def digit_value_digit_char)
  next
    case False
    with 1 have ih: "digits_value (digits_of (n div 10)) = int (n div 10)" by simp
    have "digits_value (digits_of n)
          = 10 * digits_value (digits_of (n div 10)) + digit_value (digit_char (n mod 10))"
      using False by (subst digits_of.simps) (simp add: digits_value_def)
    also have "\<dots> = 10 * int (n div 10) + int (n mod 10)"
      by (simp add: ih digit_value_digit_char)
    also have "\<dots> = int n"
      by (simp add: zdiv_int zmod_int)
    finally show ?thesis .
  qed
qed

lemma digit_not_space: "is_digit c \<Longrightarrow> \<not> is_space c \<and> c \<noteq> CHR ''-'' \<and> c \<noteq> CHR ''+''"
  by (auto simp add: is_digit_def is_space_def)

lemma minus_not_space: "\<not> is_space CHR ''-''"
  by (simp add: is_space_def)

lemma takeWhile_all_digits: "\<forall>c \<in> set ds. is_digit c \<Longrightarrow> takeWhile is_digit ds = ds"
  by (simp add: takeWhile_eq_all_conv)

lemma mathInt_digits:
  assumes "ds \<noteq> []" and "\<forall>c \<in> set ds. is_digit c"
  shows "mathInt ds = Some (digits_value ds)"
    and "mathInt (CHR ''-'' # ds) = Some (- digits_value ds)"
proof -
  obtain c cs where d: "ds = c # cs" using assms(1) by (cases ds) auto
  have c: "is_digit c" using assms(2) d by simp
  have tw: "takeWhile is_digit cs = cs"
    using assms(2) d by (intro takeWhile_all_digits) simp
  show "mathInt ds = Some (digits_value ds)"
    using c digit_not_space [OF c] by (simp add: mathInt_def Let_def d tw)
  show "mathInt (CHR ''-'' # ds) = Some (- digits_value ds)"
    using c minus_not_space by (simp add: mathInt_def Let_def d tw)
qed

text \<open>A string that is the decimal numeral of an integer reads as that integer.\<close>

lemma mathInt_decimal: "mathInt (decimal i) = Some i"
proof (cases "i < 0")
  case False
  then show ?thesis
    using mathInt_digits(1) [OF digits_of_nonempty digits_of_all_digits, of "nat i"]
    by (simp add: decimal_def digits_value_digits_of)
next
  case True
  then show ?thesis
    using mathInt_digits(2) [OF digits_of_nonempty digits_of_all_digits, of "nat (- i)"]
    by (simp add: decimal_def digits_value_digits_of)
qed



subsection \<open>The literal \<open>all\<close> and the parsing of values\<close>

lemma cookie_value_empty: "cookie_value cname [] = None"
  by (simp add: cookie_value_def startsWith_def trim_def)

lemma typeof_parseInt: "typeof (parseInt h v) = TNumber"
  by (simp add: parseInt_def to_number_def split: option.splits)

lemma number_or_raw_cases: "number_or_raw h v = v \<or> typeof (number_or_raw h v) = TNumber"
  by (simp add: number_or_raw_def Let_def typeof_parseInt)

lemma from_header_not_all: "from_header h cname hdr \<noteq> Some (JStr ''all'')"
proof
  assume a: "from_header h cname hdr = Some (JStr ''all'')"
  then obtain v where v: "v \<noteq> ''all''" "number_or_raw h (JStr v) = JStr ''all''"
    by (auto simp add: from_header_def split: option.splits if_splits)
  then show False using number_or_raw_cases [of h "JStr v"] by auto
qed

lemma from_cookies_not_all: "from_cookies h req cname \<noteq> Some (JStr ''all'')"
proof
  assume a: "from_cookies h req cname = Some (JStr ''all'')"
  let ?v = "opt_lookup h (opt_prop req ''cookies'') cname"
  from a have "?v \<noteq> JStr ''all''" "number_or_raw h ?v = JStr ''all''"
    by (auto simp add: from_cookies_def Let_def split: if_splits)
  then show False using number_or_raw_cases [of h ?v] by auto
qed

lemma from_cookie_header_not_all: "from_cookie_header h req cname \<noteq> Inr (Some (JStr ''all''))"
  using from_header_not_all [of h cname]
  by (auto simp add: from_cookie_header_def Let_def split: jsval.splits)

lemma from_headers_get_not_all: "from_headers_get h req cname \<noteq> Inr (Some (JStr ''all''))"
  using from_header_not_all [of h cname]
  by (auto simp add: from_headers_get_def Let_def split: jsval.splits sum.splits)

lemma from_context_undefined:
  "opt_prop (opt_prop req ''context'') ''selectedTenant'' = JUndefined \<Longrightarrow> from_context req = None"
  by (simp add: from_context_def)

lemma selection_not_all:
  assumes "from_context req = None"
  shows "getSelectedTenantFromCookie h req cname \<noteq> Inr (JStr ''all'')"
  using assms from_cookie_header_not_all [of h req cname] from_cookies_not_all [of h req cname]
    from_headers_get_not_all [of h req cname]
  by (auto simp add: getSelectedTenantFromCookie_def selection_body_def
      split: sum.splits option.splits)

lemma from_cookie_header_str:
  "opt_prop (opt_prop req ''headers'') ''cookie'' = JStr hdr \<Longrightarrow>
   from_cookie_header h req cname = Inr (from_header h cname hdr)"
  using cookie_value_empty [of cname]
  by (cases "hdr = []") (simp_all add: from_cookie_header_def from_header_def)

lemma from_headers_get_str:
  "opt_prop (opt_prop req ''headers'') ''get'' = JFun g \<Longrightarrow>
   call h g [JStr ''cookie''] = Inr (JStr hdr) \<Longrightarrow>
   from_headers_get h req cname = Inr (from_header h cname hdr)"
  using cookie_value_empty [of cname]
  by (cases "hdr = []") (simp_all add: from_headers_get_def from_header_def)

lemma selection_chain:
  "from_context req = None \<Longrightarrow>
   getSelectedTenantFromCookie h req cname =
     (case from_cookie_header h req cname of
        Inl e \<Rightarrow> Inr JNull
      | Inr (Some v) \<Rightarrow> Inr v
      | Inr None \<Rightarrow>
         (case from_cookies h req cname of
            Some v \<Rightarrow> Inr v
          | None \<Rightarrow>
             (case from_headers_get h req cname of
                Inl e \<Rightarrow> Inr JNull
              | Inr (Some v) \<Rightarrow> Inr v
              | Inr None \<Rightarrow> Inr JNull)))"
  by (simp add: getSelectedTenantFromCookie_def selection_body_def
      split: sum.splits option.splits)

text \<open>
  C2 (as the code has it). When the context carries no selection, the literal value
  \<open>all\<close> never comes back as the selection, and a method that finds \<open>all\<close> counts as
  having found nothing: if the \<open>Cookie\<close> header property, the pre-parsed \<open>cookies\<close>
  mapping, or the header fetched through \<open>headers.get\<close> supplies \<open>all\<close> for the cookie
  name, and the remaining methods fall through, the result is \<open>null\<close>. (The context
  field of method 1 is returned as it is, see the counterexample below.)
\<close>

theorem all_is_no_selection:
  assumes ctx: "opt_prop (opt_prop req ''context'') ''selectedTenant'' = JUndefined"
  shows "getSelectedTenantFromCookie h req cname \<noteq> Inr (JStr ''all'')
   \<and> (opt_prop (opt_prop req ''headers'') ''cookie'' = JStr hdr
        \<and> cookie_value cname hdr = Some ''all''
        \<and> from_cookies h req cname = None
        \<and> from_headers_get h req cname = Inr None
       \<longrightarrow> getSelectedTenantFromCookie h req cname = Inr JNull)
   \<and> (from_cookie_header h req cname = Inr None
        \<and> opt_lookup h (opt_prop req ''cookies'') cname = JStr ''all''
        \<and> from_headers_get h req cname = Inr None
       \<longrightarrow> getSelectedTenantFromCookie h req cname = Inr JNull)
   \<and> (from_cookie_header h req cname = Inr None
        \<and> from_cookies h req cname = None
        \<and> opt_prop (opt_prop req ''headers'') ''get'' = JFun g
        \<and> call h g [JStr ''cookie''] = Inr (JStr hdr)
        \<and> cookie_value cname hdr = Some ''all''
       \<longrightarrow> getSelectedTenantFromCookie h req cname = Inr JNull)"
proof -
  note c = from_context_undefined [OF ctx]
  have 1: "getSelectedTenantFromCookie h req cname \<noteq> Inr (JStr ''all'')"
    by (rule selection_not_all [OF c])
  have 2: "getSelectedTenantFromCookie h req cname = Inr JNull"
    if "opt_prop (opt_prop req ''headers'') ''cookie'' = JStr hdr"
      "cookie_value cname hdr = Some ''all''"
      "from_cookies h req cname = None" "from_headers_get h req cname = Inr None"
    using that by (simp add: selection_chain [OF c] from_cookie_header_str from_header_def)
  have 3: "getSelectedTenantFromCookie h req cname = Inr JNull"
    if "from_cookie_header h req cname = Inr None"
      "opt_lookup h (opt_prop req ''cookies'') cname = JStr ''all''"
      "from_headers_get h req cname = Inr None"
    using that by (simp add: selection_chain [OF c] from_cookies_def)
  have 4: "getSelectedTenantFromCookie h req cname = Inr JNull"
    if "from_cookie_header h req cname = Inr None" "from_cookies h req cname = None"
      "opt_prop (opt_prop req ''headers'') ''get'' = JFun g"
      "call h g [JStr ''cookie''] = Inr (JStr hdr)"
      "cookie_value cname hdr = Some ''all''"
    using that by (simp add: selection_chain [OF c] from_headers_get_str from_header_def)
  show ?thesis using 1 2 3 4 by blast
qed


theorem all_is_no_selection_witness:
  "getSelectedTenantFromCookie bare_host
      (JObj [(''headers'', JObj [(''cookie'', JStr ''theme=dark; payload-selected-tenant=all'')])])
      ''payload-selected-tenant'' = Inr JNull
   \<and> getSelectedTenantFromCookie bare_host
      (JObj [(''cookies'', JObj [(''payload-selected-tenant'', JStr ''all'')])])
      ''payload-selected-tenant'' = Inr JNull
   \<and> getSelectedTenantFromCookie (getter_host ''payload-selected-tenant=all'')
      (JObj [(''headers'', JObj [(''get'', JFun 0)])])
      ''payload-selected-tenant'' = Inr JNull"
proof -
  let ?n = "''payload-selected-tenant''"
  let ?r2 = "JObj [(''headers'', JObj [(''cookie'', JStr ''theme=dark; payload-selected-tenant=all'')])]"
  let ?r3 = "JObj [(''cookies'', JObj [(''payload-selected-tenant'', JStr ''all'')])]"
  let ?r4 = "JObj [(''headers'', JObj [(''get'', JFun 0)])]"
  let ?g = "getter_host ''payload-selected-tenant=all''"
  have c2: "opt_prop (opt_prop ?r2 ''context'') ''selectedTenant'' = JUndefined"
    and c3: "opt_prop (opt_prop ?r3 ''context'') ''selectedTenant'' = JUndefined"
    and c4: "opt_prop (opt_prop ?r4 ''context'') ''selectedTenant'' = JUndefined"
    by (simp_all add: opt_prop_def nullish_def)
  have h2: "opt_prop (opt_prop ?r2 ''headers'') ''cookie''
              = JStr ''theme=dark; payload-selected-tenant=all''"
    "cookie_value ?n ''theme=dark; payload-selected-tenant=all'' = Some ''all''"
    "from_cookies bare_host ?r2 ?n = None"
    "from_headers_get bare_host ?r2 ?n = Inr None"
    by code_simp+
  have h3: "from_cookie_header bare_host ?r3 ?n = Inr None"
    "opt_lookup bare_host (opt_prop ?r3 ''cookies'') ?n = JStr ''all''"
    "from_headers_get bare_host ?r3 ?n = Inr None"
    by code_simp+
  have h4: "from_cookie_header ?g ?r4 ?n = Inr None"
    "from_cookies ?g ?r4 ?n = None"
    "opt_prop (opt_prop ?r4 ''headers'') ''get'' = JFun 0"
    "call ?g 0 [JStr ''cookie''] = Inr (JStr ''payload-selected-tenant=all'')"
    "cookie_value ?n ''payload-selected-tenant=all'' = Some ''all''"
    by code_simp+
  show ?thesis
    using all_is_no_selection [OF c2, where h = bare_host and cname = ?n
          and hdr = "''theme=dark; payload-selected-tenant=all''"] h2
      all_is_no_selection [OF c3, where h = bare_host and cname = ?n] h3
      all_is_no_selection [OF c4, where h = ?g and cname = ?n and g = 0
          and hdr = "''payload-selected-tenant=all''"] h4
    by blast
qed

text \<open>Method 1 returns \<open>req.context.selectedTenant\<close> without looking at it, so the
  value \<open>all\<close> placed there is returned as the selection.\<close>

theorem context_all_counterexample:
  "getSelectedTenantFromCookie bare_host
      (JObj [(''context'', JObj [(''selectedTenant'', JStr ''all'')])])
      ''payload-selected-tenant'' = Inr (JStr ''all'')
   \<and> getSelectedTenantFromCookie bare_host
      (JObj [(''context'', JObj [(''selectedTenant'', JStr ''all'')])])
      ''payload-selected-tenant'' \<noteq> Inr JNull"
  by code_simp


text \<open>
  C6. The specification has the selector return an integer exactly for the values that
  round-trip as a base-10 integer, and the raw string unchanged otherwise. The code
  takes \<open>parseInt(value, 10)\<close> whenever it is not \<open>NaN\<close>, and \<open>parseInt\<close> reads any leading
  digits: the string identifier \<open>65a1b2c3d4e5f6a7b8c9d0e1\<close>, which is not the numeral of
  65, comes back as the number 65, and \<open>42abc\<close> as 42. Two neighbours of the same
  lines: the digit string \<open>9007199254740993\<close> comes back as the number 9007199254740992,
  and of the value \<open>abc=def\<close> only \<open>abc\<close> is returned, because the value is the second
  piece of a split on \<open>=\<close>. The two examples of the specification hold: \<open>42\<close> gives the number
  42 and \<open>tenant-abc\<close> the string itself.
\<close>

theorem string_identifier_parsed_as_number:
  "getSelectedTenantFromCookie bare_host
      (JObj [(''headers'', JObj [(''cookie'',
         JStr ''payload-selected-tenant=65a1b2c3d4e5f6a7b8c9d0e1'')])])
      ''payload-selected-tenant'' = Inr (JNum 65)
   \<and> decimal 65 \<noteq> ''65a1b2c3d4e5f6a7b8c9d0e1''
   \<and> getSelectedTenantFromCookie bare_host
      (JObj [(''cookies'', JObj [(''payload-selected-tenant'', JStr ''42abc'')])])
      ''payload-selected-tenant'' = Inr (JNum 42)
   \<and> getSelectedTenantFromCookie bare_host
      (JObj [(''headers'', JObj [(''cookie'',
         JStr ''payload-selected-tenant=9007199254740993'')])])
      ''payload-selected-tenant'' = Inr (JNum 9007199254740992)
   \<and> getSelectedTenantFromCookie bare_host
      (JObj [(''headers'', JObj [(''cookie'', JStr ''payload-selected-tenant=abc=def'')])])
      ''payload-selected-tenant'' = Inr (JStr ''abc'')
   \<and> getSelectedTenantFromCookie bare_host
      (JObj [(''headers'', JObj [(''cookie'', JStr ''payload-selected-tenant=42; other=x'')])])
      ''payload-selected-tenant'' = Inr (JNum 42)
   \<and> getSelectedTenantFromCookie bare_host
      (JObj [(''headers'', JObj [(''cookie'', JStr ''payload-selected-tenant=tenant-abc'')])])
      ''payload-selected-tenant'' = Inr (JStr ''tenant-abc'')"
  by code_simp

section \<open>Properties of the tenant-membership lookup\<close>


lemma map_tenant_total:
  "\<forall>t \<in> set ts. \<not> nullish t \<Longrightarrow>
   map_tenant ts = Inr (map (\<lambda>t. extractTenantId (own t ''tenant'')) ts)"
  by (induction ts) (simp_all add: get_prop_def)

lemma resolve_tenants_total:
  "\<forall>t \<in> set ts. \<not> nullish t \<Longrightarrow>
   resolve_tenants ts
     = Inr (filter (\<lambda>id. id \<noteq> JNull) (map (\<lambda>t. extractTenantId (own t ''tenant'')) ts))"
  by (simp add: resolve_tenants_def map_tenant_total)

lemma own_defined_truthy: "own v k \<noteq> JUndefined \<Longrightarrow> truthy v"
  by (cases v) simp_all

text \<open>
  C7. \<open>getUserTenantIds\<close> always returns a sequence, never an error. When the store's
  \<open>findByID\<close> fails (throws or rejects), and more generally whenever the lookup raises,
  the result is the empty sequence. When the store returns a document whose \<open>tenants\<close>
  is an array of assignments, the result is, in order, \<open>extractTenantId\<close> of each
  assignment's \<open>tenant\<close> with the unresolvable (\<open>null\<close>) results dropped. A store
  failure therefore fails closed: for a user who is not a super-admin the filter-options
  provider answers \<open>false\<close>.
\<close>

theorem getUserTenantIds_fails_closed:
  "(\<exists>ids. getUserTenantIds h userId payload = Inr ids)
   \<and> (lookup_body h userId payload = Inl e \<longrightarrow> getUserTenantIds h userId payload = Inr [])
   \<and> (get_prop payload ''findByID'' = Inr (JFun g)
        \<and> call h g [findByID_args userId] = Inl e
       \<longrightarrow> getUserTenantIds h userId payload = Inr [])
   \<and> (get_prop payload ''findByID'' = Inr (JFun g)
        \<and> call h g [findByID_args userId] = Inr userDoc
        \<and> own userDoc ''tenants'' = JArr ts
        \<and> (\<forall>t \<in> set ts. \<not> nullish t)
       \<longrightarrow> getUserTenantIds h userId payload
            = Inr (filter (\<lambda>id. id \<noteq> JNull)
                     (map (\<lambda>t. extractTenantId (own t ''tenant'')) ts)))
   \<and> (get_prop args ''user'' = Inr user
        \<and> opt_prop user ''role'' \<noteq> JStr ''super-admin''
        \<and> get_prop (own args ''req'') ''payload'' = Inr payload
        \<and> get_prop payload ''findByID'' = Inr (JFun g)
        \<and> call h g [findByID_args (own user ''id'')] = Inl e
       \<longrightarrow> getTenantFilterOptions h args = Inr (JBool False))"
proof -
  have 1: "\<exists>ids. getUserTenantIds h userId payload = Inr ids"
    by (simp add: getUserTenantIds_def split: sum.splits)
  have 2: "getUserTenantIds h userId payload = Inr []" if "lookup_body h userId payload = Inl e"
    using that by (simp add: getUserTenantIds_def)
  have 3: "getUserTenantIds h u payload = Inr []"
    if "get_prop payload ''findByID'' = Inr (JFun g)" "call h g [findByID_args u] = Inl e"
    for u
    using that by (simp add: getUserTenantIds_def lookup_body_def)
  have 4: "getUserTenantIds h userId payload
            = Inr (filter (\<lambda>id. id \<noteq> JNull)
                     (map (\<lambda>t. extractTenantId (own t ''tenant'')) ts))"
    if "get_prop payload ''findByID'' = Inr (JFun g)"
      "call h g [findByID_args userId] = Inr userDoc"
      "own userDoc ''tenants'' = JArr ts" "\<forall>t \<in> set ts. \<not> nullish t"
  proof -
    have "truthy userDoc" using that(3) by (intro own_defined_truthy [of userDoc "''tenants''"]) simp
    then show ?thesis
      using that
      by (simp add: getUserTenantIds_def lookup_body_def isArray_def resolve_tenants_total)
  qed
  have 5: "getTenantFilterOptions h args = Inr (JBool False)"
    if "get_prop args ''user'' = Inr user" "opt_prop user ''role'' \<noteq> JStr ''super-admin''"
      "get_prop (own args ''req'') ''payload'' = Inr payload"
      "get_prop payload ''findByID'' = Inr (JFun g)"
      "call h g [findByID_args (own user ''id'')] = Inl e"
    using that 3 [of "own user ''id''"] by (simp add: getTenantFilterOptions_def)
  show ?thesis using 1 2 3 [of userId] 4 5 by blast
qed


text \<open>A store that returns a user with three assignments (a bare identifier, an embedded
  tenant record, an empty reference), and a store that fails.\<close>

theorem getUserTenantIds_fails_closed_witness:
  "getUserTenantIds
      (store_host (Inr (JObj [(''id'', JNum 1), (''tenants'', JArr
          [JObj [(''tenant'', JNum 7)],
           JObj [(''tenant'', JObj [(''id'', JNum 9), (''name'', JStr ''acme'')])],
           JObj [(''tenant'', JNull)]])])))
      (JNum 1) (JObj [(''findByID'', JFun 0)])
     = Inr [JNum 7, JNum 9]
   \<and> getUserTenantIds (store_host (Inl (Thrown (JStr ''connection lost''))))
      (JNum 1) (JObj [(''findByID'', JFun 0)])
     = Inr []
   \<and> getTenantFilterOptions (store_host (Inl (Thrown (JStr ''connection lost''))))
      (JObj [(''user'', JObj [(''id'', JNum 1), (''role'', JStr ''tenant-user'')]),
             (''req'', JObj [(''payload'', JObj [(''findByID'', JFun 0)])])])
     = Inr (JBool False)"
proof -
  let ?ts = "[JObj [(''tenant'', JNum 7)],
              JObj [(''tenant'', JObj [(''id'', JNum 9), (''name'', JStr ''acme'')])],
              JObj [(''tenant'', JNull)]]"
  let ?doc = "JObj [(''id'', JNum 1), (''tenants'', JArr ?ts)]"
  let ?p = "JObj [(''findByID'', JFun 0)]"
  let ?user = "JObj [(''id'', JNum 1), (''role'', JStr ''tenant-user'')]"
  let ?args = "JObj [(''user'', ?user), (''req'', JObj [(''payload'', ?p)])]"
  let ?e = "Thrown (JStr ''connection lost'')"
  have p: "get_prop ?p ''findByID'' = Inr (JFun 0)"
    by (simp add: get_prop_def nullish_def)
  have ok: "call (store_host (Inr ?doc)) 0 [findByID_args (JNum 1)] = Inr ?doc"
    "own ?doc ''tenants'' = JArr ?ts" "\<forall>t \<in> set ?ts. \<not> nullish t"
    by (simp_all add: store_host_def bare_host_def nullish_def)
  have ids: "filter (\<lambda>id. id \<noteq> JNull) (map (\<lambda>t. extractTenantId (own t ''tenant'')) ?ts)
             = [JNum 7, JNum 9]"
    by (simp add: extractTenantId_def coalesce_def nullish_def)
  have bad: "call (store_host (Inl ?e)) 0 [findByID_args (JNum 1)] = Inl ?e"
    by (simp add: store_host_def bare_host_def)
  have a: "get_prop ?args ''user'' = Inr ?user"
    "opt_prop ?user ''role'' \<noteq> JStr ''super-admin''"
    "get_prop (own ?args ''req'') ''payload'' = Inr ?p"
    "call (store_host (Inl ?e)) 0 [findByID_args (own ?user ''id'')] = Inl ?e"
    by (simp_all add: get_prop_def opt_prop_def nullish_def store_host_def bare_host_def)
  have r1: "getUserTenantIds (store_host (Inr ?doc)) (JNum 1) ?p = Inr [JNum 7, JNum 9]"
    using getUserTenantIds_fails_closed [where h = "store_host (Inr ?doc)" and userId = "JNum 1"
        and payload = ?p and g = 0 and userDoc = ?doc and ts = ?ts] p ok ids
    by simp
  have r2: "getUserTenantIds (store_host (Inl ?e)) (JNum 1) ?p = Inr []"
    using getUserTenantIds_fails_closed [where h = "store_host (Inl ?e)" and userId = "JNum 1"
        and payload = ?p and g = 0 and e = ?e] p bad
    by blast
  have r3: "getTenantFilterOptions (store_host (Inl ?e)) ?args = Inr (JBool False)"
    using getUserTenantIds_fails_closed [where h = "store_host (Inl ?e)"
        and payload = ?p and g = 0 and e = ?e and args = ?args and user = ?user] p a
    by blast
  show ?thesis using r1 r2 r3 by blast
qed

section \<open>Properties of the access rules\<close>

lemma merge_original_static:
  "\<not> is_function original \<Longrightarrow> merge_original h f original args = Inr f"
  by (simp add: merge_original_def)

lemma merge_original_called:
  "is_function original \<Longrightarrow> invoke h original args = Inr r \<Longrightarrow>
   merge_original h f original args = Inr (if typeof r = TObject then and_filter f r else f)"
  by (simp add: merge_original_def)

lemma scoped_rule_regular:
  "request_of args = Inr req \<Longrightarrow> user_of req = Inr user \<Longrightarrow> \<not> elevated user \<Longrightarrow>
   extractUserTenantIds user = Inr ids \<Longrightarrow>
   scoped_rule h elevated cname fname original args
     = (if ids \<noteq> [] then merge_original h (in_filter fname ids) original args
        else Inr (JBool False))"
  by (simp add: scoped_rule_def)


lemma create_rule_regular:
  "request_of args = Inr req \<Longrightarrow> user_of req = Inr user \<Longrightarrow> \<not> elevated user \<Longrightarrow>
   create_rule h elevated original args
     = (if is_function original then invoke h original args
        else Inr (static_or original False))"
  by (simp add: create_rule_def)

lemma entry_absent: "oa key = None \<Longrightarrow> entry oa key = Given JUndefined"
  by (simp add: entry_def)

text \<open>
  C3. For a user without elevated access whose tenant memberships resolve to a non-empty
  list \<open>ids\<close> (such as \<open>[T1, T2]\<close>), each of \<open>read\<close>, \<open>update\<close> and \<open>delete\<close> returns
  the filter \<open>{fieldName.tenant: {in: ids}}\<close>. If the collection's own rule for the
  operation is a function and its result is a structured predicate, that is, a result
  whose \<open>typeof\<close> is \<open>'object'\<close>, the decision is \<open>{and: [filter, result]}\<close>; any other
  result of the rule is ignored and the decision is the filter alone, as it is when the
  rule is not a function. (Besides records, \<open>typeof\<close> is \<open>'object'\<close> for arrays and for
  \<open>null\<close>, which are not access results of the host framework.)
\<close>

theorem regular_user_filter:
  assumes "request_of args = Inr req" and "user_of req = Inr user" and "\<not> elevated user"
    and "extractUserTenantIds user = Inr ids" and "ids \<noteq> []"
  shows "\<forall>(rule, key) \<in> {(access_read, ''read''), (access_update, ''update''),
                           (access_delete, ''delete'')}.
     (\<not> is_function (entry oa key) \<longrightarrow>
        rule h elevated cname fname oa args = Inr (in_filter fname ids))
     \<and> (\<forall>r. is_function (entry oa key) \<and> invoke h (entry oa key) args = Inr r \<longrightarrow>
        rule h elevated cname fname oa args
          = Inr (if typeof r = TObject then and_filter (in_filter fname ids) r
                 else in_filter fname ids))"
  using assms
  by (simp add: access_read_def access_update_def access_delete_def
      scoped_rule_regular [where elevated = elevated, OF assms(1-4)] merge_original_static merge_original_called)


text \<open>
  C1 (as the code has it). For a user without elevated access whose tenant memberships
  resolve to the empty list, \<open>read\<close>, \<open>update\<close> and \<open>delete\<close> return \<open>false\<close> whatever
  rule the collection has. \<open>create\<close> does not look at memberships: it returns the
  decision of the collection's own \<open>create\<close> rule (its result when it is a function,
  its value when it is static), and \<open>false\<close> when the collection has none.
\<close>

theorem regular_user_without_tenants:
  assumes "request_of args = Inr req" and "user_of req = Inr user" and "\<not> elevated user"
    and "extractUserTenantIds user = Inr []"
  shows "access_read h elevated cname fname oa args = Inr (JBool False)
   \<and> access_update h elevated cname fname oa args = Inr (JBool False)
   \<and> access_delete h elevated cname fname oa args = Inr (JBool False)
   \<and> access_create h elevated oa args
       = (if is_function (entry oa ''create'') then invoke h (entry oa ''create'') args
          else Inr (static_or (entry oa ''create'') False))
   \<and> (oa ''create'' = None \<longrightarrow> access_create h elevated oa args = Inr (JBool False))"
  by (simp add: access_read_def access_update_def access_delete_def access_create_def
      scoped_rule_regular [where elevated = elevated, OF assms] create_rule_regular [where elevated = elevated, OF assms(1-3)] entry_absent)

lemma scoped_rule_same_user:
  assumes "request_of args1 = Inr req1" and "request_of args2 = Inr req2"
    and "user_of req1 = Inr user" and "user_of req2 = Inr user" and "\<not> elevated user"
    and "is_function original \<longrightarrow> invoke h original args1 = invoke h original args2"
  shows "scoped_rule h elevated cname fname original args1
       = scoped_rule h elevated cname fname original args2"
  using assms by (simp add: scoped_rule_def merge_original_def split: sum.splits)

text \<open>
  C10 (as the code has it). For a user without elevated access the plugin's own part of
  each of the four decisions does not depend on the selection cookie or the context:
  two requests with the same user give the same decision, provided the collection's own
  rule for the operation, where it is a function, gives the same outcome on both (it is
  passed the whole request and may read the cookie itself).
\<close>

theorem regular_user_ignores_selection:
  assumes "request_of args1 = Inr req1" and "request_of args2 = Inr req2"
    and "user_of req1 = Inr user" and "user_of req2 = Inr user" and "\<not> elevated user"
    and "\<forall>key \<in> {''create'', ''read'', ''update'', ''delete''}.
           is_function (entry oa key) \<longrightarrow>
           invoke h (entry oa key) args1 = invoke h (entry oa key) args2"
  shows "access_create h elevated oa args1 = access_create h elevated oa args2
   \<and> access_read h elevated cname fname oa args1 = access_read h elevated cname fname oa args2
   \<and> access_update h elevated cname fname oa args1
       = access_update h elevated cname fname oa args2
   \<and> access_delete h elevated cname fname oa args1
       = access_delete h elevated cname fname oa args2"
proof -
  have c: "access_create h elevated oa args1 = access_create h elevated oa args2"
    using assms(6)
    by (simp add: access_create_def create_rule_regular [where elevated = elevated, OF assms(1,3,5)]
        create_rule_regular [where elevated = elevated, OF assms(2,4,5)])
  have s: "scoped_rule h elevated cname fname (entry oa key) args1
         = scoped_rule h elevated cname fname (entry oa key) args2"
    if "key \<in> {''read'', ''update'', ''delete''}" for key
    using assms(6) that by (intro scoped_rule_same_user [where elevated = elevated, OF assms(1-5)]) auto
  show ?thesis
    using c s by (simp add: access_read_def access_update_def access_delete_def)
qed


text \<open>
  The user \<open>{role: 'tenant-user', tenants: [{tenant: 7}, {tenant: 9}]}\<close>: without a rule
  of the collection, with a rule returning a filter, and with a rule returning \<open>true\<close>.
\<close>

theorem regular_user_filter_witness:
  "access_read bare_host default_elevated ''payload-selected-tenant'' ''tenants'' Map.empty
      (JObj [(''req'', JObj [(''user'', JObj [(''role'', JStr ''tenant-user''),
         (''tenants'', JArr [JObj [(''tenant'', JNum 7)], JObj [(''tenant'', JNum 9)]])])])])
     = Inr (JObj [(''tenants.tenant'', JObj [(''in'', JArr [JNum 7, JNum 9])])])
   \<and> access_update (store_host (Inr (JObj [(''published'', JObj [(''equals'', JBool True)])])))
      default_elevated ''payload-selected-tenant'' ''tenants''
      [''update'' \<mapsto> Given (JFun 0)]
      (JObj [(''req'', JObj [(''user'', JObj [(''role'', JStr ''tenant-user''),
         (''tenants'', JArr [JObj [(''tenant'', JNum 7)], JObj [(''tenant'', JNum 9)]])])])])
     = Inr (JObj [(''and'', JArr
         [JObj [(''tenants.tenant'', JObj [(''in'', JArr [JNum 7, JNum 9])])],
          JObj [(''published'', JObj [(''equals'', JBool True)])]])])
   \<and> access_delete (store_host (Inr (JBool True)))
      default_elevated ''payload-selected-tenant'' ''tenants''
      [''delete'' \<mapsto> Given (JFun 0)]
      (JObj [(''req'', JObj [(''user'', JObj [(''role'', JStr ''tenant-user''),
         (''tenants'', JArr [JObj [(''tenant'', JNum 7)], JObj [(''tenant'', JNum 9)]])])])])
     = Inr (JObj [(''tenants.tenant'', JObj [(''in'', JArr [JNum 7, JNum 9])])])"
proof -
  let ?user = "JObj [(''role'', JStr ''tenant-user''),
         (''tenants'', JArr [JObj [(''tenant'', JNum 7)], JObj [(''tenant'', JNum 9)]])]"
  let ?req = "JObj [(''user'', ?user)]"
  let ?args = "JObj [(''req'', ?req)]"
  let ?where = "JObj [(''published'', JObj [(''equals'', JBool True)])]"
  have a: "request_of ?args = Inr ?req" "user_of ?req = Inr ?user"
    by (simp_all add: request_of_def user_of_def get_prop_def nullish_def)
  have u: "\<not> default_elevated ?user"
    by (simp add: default_elevated_def opt_prop_def nullish_def)
  have ids: "extractUserTenantIds ?user = Inr [JNum 7, JNum 9]"
    by code_simp
  have ne: "[JNum 7, JNum 9] \<noteq> []" by simp
  note t = regular_user_filter [where elevated = default_elevated, OF a u ids ne,
      where cname = "''payload-selected-tenant''" and fname = "''tenants''"]
  have r1: "access_read bare_host default_elevated ''payload-selected-tenant'' ''tenants''
              Map.empty ?args = Inr (in_filter ''tenants'' [JNum 7, JNum 9])"
    using t [where h = bare_host and oa = Map.empty] by (simp add: entry_def)
  have r2: "access_update (store_host (Inr ?where)) default_elevated
              ''payload-selected-tenant'' ''tenants'' [''update'' \<mapsto> Given (JFun 0)] ?args
            = Inr (and_filter (in_filter ''tenants'' [JNum 7, JNum 9]) ?where)"
    using t [where h = "store_host (Inr ?where)" and oa = "[''update'' \<mapsto> Given (JFun 0)]"]
    by (simp add: entry_def store_host_def bare_host_def)
  have r3: "access_delete (store_host (Inr (JBool True))) default_elevated
              ''payload-selected-tenant'' ''tenants'' [''delete'' \<mapsto> Given (JFun 0)] ?args
            = Inr (in_filter ''tenants'' [JNum 7, JNum 9])"
    using t [where h = "store_host (Inr (JBool True))"
        and oa = "[''delete'' \<mapsto> Given (JFun 0)]"]
    by (simp add: entry_def store_host_def bare_host_def)
  show ?thesis
    using r1 r2 r3 by (simp add: in_filter_def and_filter_def)
qed





theorem regular_user_without_tenants_witness:
  "access_read bare_host default_elevated ''payload-selected-tenant'' ''tenants''
      [''read'' \<mapsto> Given (JBool True)]
      (JObj [(''req'', JObj [(''user'', JObj [(''role'', JStr ''tenant-user''),
         (''tenants'', JArr [])])])])
     = Inr (JBool False)
   \<and> access_update (store_host (Inr (JBool True))) default_elevated
      ''payload-selected-tenant'' ''tenants'' [''update'' \<mapsto> Given (JFun 0)]
      (JObj [(''req'', JObj [(''user'', JObj [(''role'', JStr ''tenant-user''),
         (''tenants'', JArr [])])])])
     = Inr (JBool False)
   \<and> access_delete bare_host default_elevated ''payload-selected-tenant'' ''tenants'' Map.empty
      (JObj [(''req'', JObj [(''user'', JObj [(''role'', JStr ''tenant-user''),
         (''tenants'', JArr [])])])])
     = Inr (JBool False)
   \<and> access_create bare_host default_elevated Map.empty
      (JObj [(''req'', JObj [(''user'', JObj [(''role'', JStr ''tenant-user''),
         (''tenants'', JArr [])])])])
     = Inr (JBool False)
   \<and> access_create (store_host (Inr (JBool True))) default_elevated
      [''create'' \<mapsto> Given (JFun 0)]
      (JObj [(''req'', JObj [(''user'', JObj [(''role'', JStr ''tenant-user''),
         (''tenants'', JArr [])])])])
     = Inr (JBool True)"
proof -
  let ?n = "''payload-selected-tenant''"
  let ?user = "JObj [(''role'', JStr ''tenant-user''), (''tenants'', JArr [])]"
  let ?req = "JObj [(''user'', ?user)]"
  let ?args = "JObj [(''req'', ?req)]"
  have a: "request_of ?args = Inr ?req" "user_of ?req = Inr ?user"
    by (simp_all add: request_of_def user_of_def get_prop_def nullish_def)
  have u: "\<not> default_elevated ?user"
    by (simp add: default_elevated_def opt_prop_def nullish_def)
  have ids: "extractUserTenantIds ?user = Inr []"
    by code_simp
  note t = regular_user_without_tenants [where elevated = default_elevated, OF a u ids,
      where cname = ?n and fname = "''tenants''"]
  show ?thesis
    using t [where h = bare_host and oa = "[''read'' \<mapsto> Given (JBool True)]"]
      t [where h = "store_host (Inr (JBool True))" and oa = "[''update'' \<mapsto> Given (JFun 0)]"]
      t [where h = bare_host and oa = Map.empty]
      t [where h = "store_host (Inr (JBool True))" and oa = "[''create'' \<mapsto> Given (JFun 0)]"]
    by (simp add: entry_def store_host_def bare_host_def)
qed

text \<open>
  A user without elevated access and without tenants, on a collection whose own
  \<open>create\<close> rule is \<open>() => true\<close>: \<open>create\<close> is allowed.
\<close>

theorem create_without_tenants_counterexample:
  "\<not> default_elevated (JObj [(''role'', JStr ''tenant-user''), (''tenants'', JArr [])])
   \<and> extractUserTenantIds (JObj [(''role'', JStr ''tenant-user''), (''tenants'', JArr [])])
       = Inr []
   \<and> access_create (store_host (Inr (JBool True))) default_elevated
      [''create'' \<mapsto> Given (JFun 0)]
      (JObj [(''req'', JObj [(''user'', JObj [(''role'', JStr ''tenant-user''),
         (''tenants'', JArr [])])])])
     = Inr (JBool True)
   \<and> access_create (store_host (Inr (JBool True))) default_elevated
      [''create'' \<mapsto> Given (JFun 0)]
      (JObj [(''req'', JObj [(''user'', JObj [(''role'', JStr ''tenant-user''),
         (''tenants'', JArr [])])])])
     \<noteq> Inr (JBool False)"
  by code_simp

text \<open>
  Two requests of the same user, one carrying the cookie header, the parsed cookie and
  a context selection, the other none of them.
\<close>

theorem regular_user_ignores_selection_witness:
  "access_read bare_host default_elevated ''payload-selected-tenant'' ''tenants'' Map.empty
      (JObj [(''req'', JObj [(''user'', JObj [(''role'', JStr ''tenant-user''),
           (''tenants'', JArr [JObj [(''tenant'', JNum 7)]])]),
         (''headers'', JObj [(''cookie'', JStr ''payload-selected-tenant=9'')]),
         (''cookies'', JObj [(''payload-selected-tenant'', JStr ''9'')]),
         (''context'', JObj [(''selectedTenant'', JNum 9)])])])
   = access_read bare_host default_elevated ''payload-selected-tenant'' ''tenants'' Map.empty
      (JObj [(''req'', JObj [(''user'', JObj [(''role'', JStr ''tenant-user''),
           (''tenants'', JArr [JObj [(''tenant'', JNum 7)]])])])])
   \<and> access_create (store_host (Inr (JBool True))) default_elevated
      [''create'' \<mapsto> Given (JFun 0)]
      (JObj [(''req'', JObj [(''user'', JObj [(''role'', JStr ''tenant-user''),
           (''tenants'', JArr [JObj [(''tenant'', JNum 7)]])]),
         (''headers'', JObj [(''cookie'', JStr ''payload-selected-tenant=9'')]),
         (''cookies'', JObj [(''payload-selected-tenant'', JStr ''9'')]),
         (''context'', JObj [(''selectedTenant'', JNum 9)])])])
   = access_create (store_host (Inr (JBool True))) default_elevated
      [''create'' \<mapsto> Given (JFun 0)]
      (JObj [(''req'', JObj [(''user'', JObj [(''role'', JStr ''tenant-user''),
           (''tenants'', JArr [JObj [(''tenant'', JNum 7)]])])])])"
proof -
  let ?n = "''payload-selected-tenant''"
  let ?user = "JObj [(''role'', JStr ''tenant-user''),
           (''tenants'', JArr [JObj [(''tenant'', JNum 7)]])]"
  let ?req1 = "JObj [(''user'', ?user),
         (''headers'', JObj [(''cookie'', JStr ''payload-selected-tenant=9'')]),
         (''cookies'', JObj [(''payload-selected-tenant'', JStr ''9'')]),
         (''context'', JObj [(''selectedTenant'', JNum 9)])]"
  let ?req2 = "JObj [(''user'', ?user)]"
  have a: "request_of (JObj [(''req'', ?req1)]) = Inr ?req1"
    "request_of (JObj [(''req'', ?req2)]) = Inr ?req2"
    "user_of ?req1 = Inr ?user" "user_of ?req2 = Inr ?user"
    by (simp_all add: request_of_def user_of_def get_prop_def nullish_def)
  have u: "\<not> default_elevated ?user"
    by (simp add: default_elevated_def opt_prop_def nullish_def)
  have d1: "\<forall>key \<in> {''create'', ''read'', ''update'', ''delete''}.
           is_function (entry Map.empty key) \<longrightarrow>
           invoke bare_host (entry Map.empty key) (JObj [(''req'', ?req1)])
           = invoke bare_host (entry Map.empty key) (JObj [(''req'', ?req2)])"
    by (simp add: entry_def)
  have d2: "\<forall>key \<in> {''create'', ''read'', ''update'', ''delete''}.
           is_function (entry [''create'' \<mapsto> Given (JFun 0)] key) \<longrightarrow>
           invoke (store_host (Inr (JBool True))) (entry [''create'' \<mapsto> Given (JFun 0)] key)
             (JObj [(''req'', ?req1)])
           = invoke (store_host (Inr (JBool True))) (entry [''create'' \<mapsto> Given (JFun 0)] key)
             (JObj [(''req'', ?req2)])"
    by (simp add: entry_def store_host_def bare_host_def)
  show ?thesis
    using regular_user_ignores_selection [where elevated = default_elevated, OF a u d1,
        where cname = ?n and fname = "''tenants''"]
      regular_user_ignores_selection [where elevated = default_elevated, OF a u d2,
        where cname = ?n and fname = "''tenants''"]
    by blast
qed

text \<open>
  A collection whose own \<open>read\<close> rule builds its filter from the request's cookie: two
  requests that differ only in the parsed cookie get different decisions.
\<close>

theorem cookie_reading_rule_counterexample:
  "\<not> default_elevated (JObj [(''role'', JStr ''tenant-user''),
           (''tenants'', JArr [JObj [(''tenant'', JNum 7)]])])
   \<and> access_read cookie_rule_host default_elevated ''payload-selected-tenant'' ''tenants''
      [''read'' \<mapsto> Given (JFun 0)]
      (JObj [(''req'', JObj [(''user'', JObj [(''role'', JStr ''tenant-user''),
           (''tenants'', JArr [JObj [(''tenant'', JNum 7)]])]),
         (''cookies'', JObj [(''payload-selected-tenant'', JStr ''1'')])])])
   \<noteq> access_read cookie_rule_host default_elevated ''payload-selected-tenant'' ''tenants''
      [''read'' \<mapsto> Given (JFun 0)]
      (JObj [(''req'', JObj [(''user'', JObj [(''role'', JStr ''tenant-user''),
           (''tenants'', JArr [JObj [(''tenant'', JNum 7)]])]),
         (''cookies'', JObj [(''payload-selected-tenant'', JStr ''2'')])])])"
  by code_simp

section \<open>Properties of the plugin\<close>

text \<open>
  The closures that the plugin installs on a scoped collection are the four access
  functions above, closed over the collection's original access object; the other
  entries of that object are kept.
\<close>

lemma installed_rules:
  assumes "name = (if truthy (own collectionConfig ''fieldName'')
                   then own collectionConfig ''fieldName'' else JStr ''tenants'')"
    and "oa = default_to Map.empty (collection_access collection)"
  shows "\<exists>installed.
      collection_access (scope_collection tenants elevated cookie collectionConfig collection)
        = Some installed
      \<and> invoke h (entry installed ''create'') args = access_create h elevated oa args
      \<and> invoke h (entry installed ''read'') args
          = access_read h elevated cookie (interpolate h name) oa args
      \<and> invoke h (entry installed ''update'') args
          = access_update h elevated cookie (interpolate h name) oa args
      \<and> invoke h (entry installed ''delete'') args
          = access_delete h elevated cookie (interpolate h name) oa args
      \<and> (\<forall>k. k \<notin> {''create'', ''read'', ''update'', ''delete''} \<longrightarrow> installed k = oa k)"
  using assms by (simp add: scope_collection_def Let_def entry_def)

text \<open>
  The plugin returns as many collections as it was given, in the same order, and it
  returns unchanged every collection for whose slug the read \<open>collections[slug]\<close> finds
  nothing truthy. A config without collections is returned unchanged.
\<close>

lemma unscoped_collection_unchanged:
  "(collections incomingConfig = None \<longrightarrow>
      multiTenantPlugin h pluginOptions incomingConfig = incomingConfig)
   \<and> (\<forall>cs. collections incomingConfig = Some cs \<longrightarrow>
        (\<exists>cs'. collections (multiTenantPlugin h pluginOptions incomingConfig) = Some cs'
           \<and> length cs' = length cs
           \<and> (\<forall>i < length cs.
                 \<not> truthy (lookup h (JObj (default_to [] (option_collections pluginOptions)))
                             (slug (cs ! i)))
                 \<longrightarrow> cs' ! i = cs ! i)))"
  by (auto simp add: multiTenantPlugin_def Let_def split: option.splits)

text \<open>
  C9. The specification has every collection whose slug is not a key of the \<open>collections\<close>
  option returned unchanged. The plugin finds a collection's options with
  \<open>collections[collectionSlug]\<close>, which on a plain object also finds what every object
  inherits. With only \<open>posts\<close> configured, a collection whose slug is \<open>constructor\<close> is
  not a key of the option; the read finds the inherited function, the test
  \<open>!collectionConfig\<close> (commented "Skip if not configured for multi-tenancy") does not
  skip it, and the collection comes back with the tenants field added and its access
  rules replaced. The collection \<open>media\<close>, whose slug is neither a key nor inherited,
  comes back unchanged.
\<close>

theorem inherited_slug_is_scoped:
  "map_of [(''posts'', JObj [])] ''constructor'' = None
   \<and> map_option (map collection_fields)
       (collections (multiTenantPlugin bare_host
          \<lparr> tenantsSlug = None, option_collections = Some [(''posts'', JObj [])],
            userHasAccessToAllTenants = None, cookieName = None, authCollectionSlug = None \<rparr>
          \<lparr> collections = Some
              [\<lparr> slug = ''constructor'', collection_fields = Some [HostField (JStr ''title'')],
                 collection_access = None \<rparr>,
               \<lparr> slug = ''media'', collection_fields = Some [HostField (JStr ''alt'')],
                 collection_access = None \<rparr>] \<rparr>))
     = Some [Some [HostField (JStr ''title''),
                   ArrayField (JStr ''tenants'') ''Tenants''
                     ''Tenants that have access to this document'' default_elevated
                     [RelationshipField ''tenant'' ''tenants'' True]],
             Some [HostField (JStr ''alt'')]]
   \<and> map_option (map (\<lambda>c. collection_access c = None))
       (collections (multiTenantPlugin bare_host
          \<lparr> tenantsSlug = None, option_collections = Some [(''posts'', JObj [])],
            userHasAccessToAllTenants = None, cookieName = None, authCollectionSlug = None \<rparr>
          \<lparr> collections = Some
              [\<lparr> slug = ''constructor'', collection_fields = Some [HostField (JStr ''title'')],
                 collection_access = None \<rparr>,
               \<lparr> slug = ''media'', collection_fields = Some [HostField (JStr ''alt'')],
                 collection_access = None \<rparr>] \<rparr>))
     = Some [False, True]"
  by (simp add: multiTenantPlugin_def scope_collection_def default_to_def tenants_field_def
      lookup_def bare_host_def std_inherited_def object_prototype_names_def Let_def)

end
